theory Spec2Isabelle
  imports Complex_Main "HOL-Library.Sublist"
begin

section \<open>Feedback aggregation worker: data model\<close>

text \<open>
  The worker (\<^verbatim>\<open>my-first-worker/src/index.js\<close>) keeps feedback rows in a relational
  table (\<^verbatim>\<open>env.DB\<close>), embeddings in a vector index (\<^verbatim>\<open>env.VECTORIZE\<close>) and calls a
  hosted model (\<^verbatim>\<open>env.AI\<close>). A JavaScript string is modelled as \<^typ>\<open>string\<close>, read as
  the UTF-8 bytes of the text; a JavaScript number that is only compared is a \<^typ>\<open>real\<close>;
  an \<^verbatim>\<open>await\<close> that may throw returns a sum whose \<open>Inl\<close> carries \<^verbatim>\<open>error.message\<close>.
\<close>

text \<open>A row of the table \<^verbatim>\<open>feedback\<close> (schema: \<^verbatim>\<open>id INTEGER PRIMARY KEY\<close>, two
  \<^verbatim>\<open>NOT NULL\<close> text columns, the others nullable).\<close>

record feedback_row =
  fb_id :: int
  fb_source :: string
  fb_message :: string
  fb_timestamp :: string
  fb_sentiment :: "string option"
  fb_category :: "string option"
  fb_author :: "string option"

text \<open>One ranked match of \<^verbatim>\<open>env.VECTORIZE.query\<close>: \<^verbatim>\<open>{id, score, metadata}\<close>. The score
  is a number, compared with the threshold only.\<close>

record vector_metadata =
  md_source :: "string option"
  md_sentiment :: "string option"
  md_timestamp :: string

record vector_match =
  m_id :: string
  m_score :: real
  m_metadata :: "vector_metadata option"

text \<open>The argument of \<^verbatim>\<open>env.VECTORIZE.insert\<close>: \<^verbatim>\<open>{id, values, metadata}\<close>.\<close>

record vector_record =
  v_id :: string
  v_values :: "real list option"
  v_metadata :: vector_metadata

text \<open>
  The bindings of \<^verbatim>\<open>env\<close> the two vector handlers use. \<open>DB\<close> is the table, or the message
  of the error every query on it throws. \<open>AI_embed\<close> is \<^verbatim>\<open>env.AI.run\<close> on the embedding
  model and returns \<^verbatim>\<open>response.data\<close>. \<open>VECTORIZE_query\<close> takes the query vector and
  \<^verbatim>\<open>topK\<close> and returns \<^verbatim>\<open>matches\<close>. \<open>VECTORIZE_insert\<close> takes the vectors already
  inserted during the run and the new one. \<open>now\<close> is \<^verbatim>\<open>new Date().toISOString()\<close>.
\<close>

record env =
  DB :: "string + feedback_row list"
  AI_embed :: "string \<Rightarrow> string + real list list"
  VECTORIZE_query :: "real list option \<Rightarrow> nat \<Rightarrow> string + vector_match list"
  VECTORIZE_insert :: "vector_record list \<Rightarrow> vector_record \<Rightarrow> string + unit"
  now :: string

subsection \<open>Number.prototype.toString on an integer id\<close>

definition digit_char :: "nat \<Rightarrow> char" where
  "digit_char d = char_of (48 + d)"

fun digits :: "nat \<Rightarrow> string" where
  "digits n = (if n < 10 then [digit_char n] else digits (n div 10) @ [digit_char (n mod 10)])"

declare digits.simps [simp del]

definition toString :: "int \<Rightarrow> string" where
  "toString i = (if i < 0 then CHR ''-'' # digits (nat (- i)) else digits (nat i))"

text \<open>The number a string of decimal digits stands for.\<close>

definition digits_value :: "string \<Rightarrow> nat" where
  "digits_value s = foldl (\<lambda>a c. 10 * a + (of_char c - 48)) 0 s"

subsection \<open>Queries on the table\<close>

text \<open>
  The storage engine behind \<^verbatim>\<open>env.DB\<close> (D1, an SQLite database) is not part of the
  repository. The schema declares \<^verbatim>\<open>id INTEGER PRIMARY KEY\<close>, and the handlers bind the id
  as text: \<^verbatim>\<open>feedbackId\<close> comes from the query string, \<^verbatim>\<open>match.id\<close> from the index. The
  engine compares an integer column with a bound text by numeric affinity: a text that is
  a well-formed integer or real literal is compared by its value, any other text is equal
  to no integer. A literal is: optional white space (TAB, LF, VT, FF, CR, SP), an optional
  sign, digits with an optional point and more digits (at least one digit in all), an
  optional exponent (\<^verbatim>\<open>e\<close> or \<^verbatim>\<open>E\<close>, an optional sign, at least one digit), optional white
  space. So each of \<^verbatim>\<open>1\<close>, \<^verbatim>\<open>01\<close>, \<^verbatim>\<open>+1\<close>, \<^verbatim>\<open>1.0\<close>, \<^verbatim>\<open>1e0\<close> and \<^verbatim>\<open>1\<close> after a space
  selects the row with id 1. The value of the literal is taken exactly (the engine reads a
  literal that is not an integer as a double).
\<close>

definition is_space :: "char \<Rightarrow> bool" where
  "is_space c = (c \<in> set [CHR 0x09, CHR 0x0A, CHR 0x0B, CHR 0x0C, CHR 0x0D, CHR 0x20])"

definition is_digit :: "char \<Rightarrow> bool" where
  "is_digit c = (48 \<le> (of_char c :: nat) \<and> (of_char c :: nat) \<le> 57)"

definition take_sign :: "string \<Rightarrow> int \<times> string" where
  "take_sign z =
     (case z of
        [] \<Rightarrow> (1, [])
      | c # cs \<Rightarrow> if c = CHR ''-'' then (- 1, cs) else if c = CHR ''+'' then (1, cs) else (1, z))"

definition pow10 :: "int \<Rightarrow> rat" where
  "pow10 e = (if 0 \<le> e then 10 ^ nat e else 1 / 10 ^ nat (- e))"

text \<open>The value of a text that is a numeric literal, \<open>None\<close> for any other text.\<close>

definition numeric_text :: "string \<Rightarrow> rat option" where
  "numeric_text z =
     (let (sign, z2) = take_sign (dropWhile is_space z);
          ip = takeWhile is_digit z2;
          z3 = dropWhile is_digit z2;
          has_point = (case z3 of [] \<Rightarrow> False | c # cs \<Rightarrow> c = CHR ''.'');
          fp = (if has_point then takeWhile is_digit (tl z3) else []);
          z4 = (if has_point then dropWhile is_digit (tl z3) else z3);
          has_exp = (case z4 of [] \<Rightarrow> False | c # cs \<Rightarrow> c = CHR ''e'' \<or> c = CHR ''E'');
          (esign, z5) = (if has_exp then take_sign (tl z4) else (1, z4));
          ed = (if has_exp then takeWhile is_digit z5 else []);
          z6 = (if has_exp then dropWhile is_digit z5 else z5)
      in if dropWhile is_space z6 = [] \<and> ip @ fp \<noteq> [] \<and> (if has_exp then ed \<noteq> [] else True)
         then Some (of_int sign * of_nat (digits_value (ip @ fp))
                    * pow10 (esign * int (digits_value ed) - int (length fp)))
         else None)"

text \<open>\<^verbatim>\<open>id = ?\<close> for the id column of a row and a bound text.\<close>

definition id_is :: "feedback_row \<Rightarrow> string \<Rightarrow> bool" where
  "id_is r s = (numeric_text s = Some (of_int (fb_id r)))"

text \<open>\<^verbatim>\<open>env.DB.prepare(sql).bind(...).all()\<close>, the \<^verbatim>\<open>WHERE\<close> clause as a predicate; rows
  come back in table order.\<close>

definition d1_all :: "env \<Rightarrow> (feedback_row \<Rightarrow> bool) \<Rightarrow> string + feedback_row list" where
  "d1_all e wh = (case DB e of Inl msg \<Rightarrow> Inl msg | Inr rows \<Rightarrow> Inr (filter wh rows))"

text \<open>\<^verbatim>\<open>SELECT * FROM feedback WHERE id = ?\<close>\<close>

definition select_by_id :: "env \<Rightarrow> string \<Rightarrow> string + feedback_row list" where
  "select_by_id e feedbackId = d1_all e (\<lambda>r. id_is r feedbackId)"

text \<open>\<^verbatim>\<open>SELECT * FROM feedback WHERE id IN (?,...,?)\<close>\<close>

definition select_in :: "env \<Rightarrow> string list \<Rightarrow> string + feedback_row list" where
  "select_in e ids = d1_all e (\<lambda>r. list_ex (id_is r) ids)"

subsection \<open>generateEmbedding\<close>

text \<open>Returns \<^verbatim>\<open>response.data[0]\<close> (\<open>None\<close> is \<^verbatim>\<open>undefined\<close>, for an empty
  \<^verbatim>\<open>data\<close>); an error is logged and thrown again.\<close>

definition generateEmbedding :: "env \<Rightarrow> string \<Rightarrow> string + real list option" where
  "generateEmbedding e text =
     (case AI_embed e text of
        Inl msg \<Rightarrow> Inl msg
      | Inr data \<Rightarrow> Inr (case data of [] \<Rightarrow> None | v # _ \<Rightarrow> Some v))"

section \<open>GET /api/similar-feedback\<close>

text \<open>An entry of \<^verbatim>\<open>scores\<close>: \<^verbatim>\<open>{id: match.id, score: match.score}\<close>.\<close>

record score_entry =
  s_id :: string
  s_score :: real

text \<open>The JSON body of the response; a field the handler does not write is \<open>None\<close>.\<close>

record similar_body =
  sb_original :: "feedback_row option"
  sb_similar :: "feedback_row list option"
  sb_scores :: "score_entry list option"
  sb_message :: "string option"
  sb_error :: "string option"
  sb_details :: "string option"

record similar_response =
  sr_status :: nat
  sr_body :: similar_body

definition empty_similar_body :: similar_body where
  "empty_similar_body =
     \<lparr>sb_original = None, sb_similar = None, sb_scores = None,
      sb_message = None, sb_error = None, sb_details = None\<rparr>"

definition similar_failure :: "string \<Rightarrow> similar_response" where
  "similar_failure msg =
     \<lparr>sr_status = 500,
      sr_body = empty_similar_body
        \<lparr>sb_error := Some ''Failed to find similar feedback'', sb_details := Some msg\<rparr>\<rparr>"

text \<open>The filter both lists are built with:
  \<^verbatim>\<open>matches.filter(m => m.id !== feedbackId && m.score >= 0.6).slice(0, 5)\<close>.\<close>

definition surviving :: "string \<Rightarrow> vector_match list \<Rightarrow> vector_match list" where
  "surviving feedbackId matches =
     take 5 (filter (\<lambda>m. m_id m \<noteq> feedbackId \<and> m_score m \<ge> 0.6) matches)"

definition handleSimilarFeedback :: "env \<Rightarrow> string option \<Rightarrow> similar_response" where
  "handleSimilarFeedback e idParam =
     (case idParam of
        None \<Rightarrow>
          \<lparr>sr_status = 400,
           sr_body = empty_similar_body\<lparr>sb_error := Some ''id parameter is required''\<rparr>\<rparr>
      | Some feedbackId \<Rightarrow>
          if feedbackId = [] then
            \<lparr>sr_status = 400,
             sr_body = empty_similar_body\<lparr>sb_error := Some ''id parameter is required''\<rparr>\<rparr>
          else
            (case select_by_id e feedbackId of
               Inl msg \<Rightarrow> similar_failure msg
             | Inr [] \<Rightarrow>
                 \<lparr>sr_status = 404,
                  sr_body = empty_similar_body\<lparr>sb_error := Some ''Feedback not found''\<rparr>\<rparr>
             | Inr (originalFeedback # _) \<Rightarrow>
                 (case generateEmbedding e (fb_message originalFeedback) of
                    Inl msg \<Rightarrow> similar_failure msg
                  | Inr embedding \<Rightarrow>
                      (case VECTORIZE_query e embedding 6 of
                         Inl msg \<Rightarrow> similar_failure msg
                       | Inr matches \<Rightarrow>
                           (let similarIds = map m_id (surviving feedbackId matches) in
                            if length similarIds = 0 then
                              \<lparr>sr_status = 200,
                               sr_body = empty_similar_body
                                 \<lparr>sb_original := Some originalFeedback,
                                  sb_similar := Some [],
                                  sb_message := Some
                                    ''No similar feedback found (minimum 60% similarity required)''\<rparr>\<rparr>
                            else
                              (case select_in e similarIds of
                                 Inl msg \<Rightarrow> similar_failure msg
                               | Inr similarFeedback \<Rightarrow>
                                   \<lparr>sr_status = 200,
                                    sr_body = empty_similar_body
                                      \<lparr>sb_original := Some originalFeedback,
                                       sb_similar := Some similarFeedback,
                                       sb_scores := Some
                                         (map (\<lambda>m. \<lparr>s_id = m_id m, s_score = m_score m\<rparr>)
                                            (surviving feedbackId matches))\<rparr>\<rparr>))))))"

section \<open>POST /api/backfill-embeddings\<close>

record backfill_body =
  bb_success :: bool
  bb_message :: "string option"
  bb_processed :: "nat option"
  bb_errors :: "nat option"
  bb_total :: "nat option"
  bb_error :: "string option"

record backfill_response =
  br_status :: nat
  br_body :: backfill_body

text \<open>The two counters of the handler, and the vectors the run has inserted so far.\<close>

record backfill_state =
  processed :: nat
  errors :: nat
  inserted :: "vector_record list"

text \<open>\<^verbatim>\<open>SELECT id, message, source, sentiment FROM feedback ORDER BY id\<close>\<close>

definition select_all_ordered :: "env \<Rightarrow> string + feedback_row list" where
  "select_all_ordered e =
     (case d1_all e (\<lambda>r. True) of Inl msg \<Rightarrow> Inl msg | Inr rows \<Rightarrow> Inr (sort_key fb_id rows))"

text \<open>
  The callback of \<^verbatim>\<open>batch.map\<close>: embed, insert, count. Both awaits are inside the
  \<^verbatim>\<open>try\<close>, whose \<^verbatim>\<open>catch\<close> counts the error and returns.
\<close>

definition process_feedback :: "env \<Rightarrow> backfill_state \<Rightarrow> feedback_row \<Rightarrow> backfill_state" where
  "process_feedback e st feedback =
     (case generateEmbedding e (fb_message feedback) of
        Inl msg \<Rightarrow> st\<lparr>errors := errors st + 1\<rparr>
      | Inr embedding \<Rightarrow>
          (let v = \<lparr>v_id = toString (fb_id feedback), v_values = embedding,
                    v_metadata = \<lparr>md_source = Some (fb_source feedback),
                                  md_sentiment = fb_sentiment feedback,
                                  md_timestamp = now e\<rparr>\<rparr>
           in case VECTORIZE_insert e (inserted st) v of
                Inl msg \<Rightarrow> st\<lparr>errors := errors st + 1\<rparr>
              | Inr _ \<Rightarrow> st\<lparr>processed := processed st + 1, inserted := inserted st @ [v]\<rparr>))"

text \<open>
  \<^verbatim>\<open>for (let i = 0; i < allFeedback.length; i += batchSize)\<close> with \<^verbatim>\<open>batchSize = 5\<close>;
  the batch is \<^verbatim>\<open>allFeedback.slice(i, i + batchSize)\<close>, and \<^verbatim>\<open>Promise.all\<close> waits for all its
  callbacks. The callbacks of one batch are taken in list order.
\<close>

function backfill_loop :: "env \<Rightarrow> feedback_row list \<Rightarrow> nat \<Rightarrow> backfill_state \<Rightarrow> backfill_state" where
  "backfill_loop e allFeedback i st =
     (if i < length allFeedback
      then backfill_loop e allFeedback (i + 5)
             (foldl (process_feedback e) st (take 5 (drop i allFeedback)))
      else st)"
  by pat_completeness auto
termination
  by (relation "measure (\<lambda>(e, allFeedback, i, st). length allFeedback - i)") auto

declare backfill_loop.simps [simp del]

definition handleBackfillEmbeddings :: "env \<Rightarrow> backfill_response \<times> vector_record list" where
  "handleBackfillEmbeddings e =
     (case select_all_ordered e of
        Inl msg \<Rightarrow>
          (\<lparr>br_status = 500,
            br_body = \<lparr>bb_success = False, bb_message = None, bb_processed = None,
                       bb_errors = None, bb_total = None, bb_error = Some msg\<rparr>\<rparr>, [])
      | Inr allFeedback \<Rightarrow>
          if length allFeedback = 0 then
            (\<lparr>br_status = 200,
              br_body = \<lparr>bb_success = True, bb_message = Some ''No feedback to backfill'',
                         bb_processed = Some 0, bb_errors = None, bb_total = None,
                         bb_error = None\<rparr>\<rparr>, [])
          else
            (let st = backfill_loop e allFeedback 0 \<lparr>processed = 0, errors = 0, inserted = []\<rparr>
             in (\<lparr>br_status = 200,
                  br_body = \<lparr>bb_success = True,
                             bb_message = Some (''Backfill complete: '' @ digits (processed st)
                               @ '' embeddings created, '' @ digits (errors st) @ '' errors''),
                             bb_processed = Some (processed st),
                             bb_errors = Some (errors st),
                             bb_total = Some (length allFeedback),
                             bb_error = None\<rparr>\<rparr>, inserted st)))"

section \<open>The notification workflow\<close>

subsection \<open>JavaScript values, strings\<close>

text \<open>The value \<^verbatim>\<open>JSON.parse\<close> returns; an object is the list of its own properties.\<close>

datatype json =
    JNull
  | JBool bool
  | JNum real
  | JStr string
  | JArr "json list"
  | JObj "(string \<times> json) list"

text \<open>
  \<^verbatim>\<open>analysis.level\<close> and the three other properties the classifier reads: reading a
  property of \<^verbatim>\<open>null\<close> throws a TypeError; a number, string, boolean or array has none of
  the four, so the read gives \<^verbatim>\<open>undefined\<close> (\<open>None\<close>).
\<close>

definition get_property :: "json \<Rightarrow> string \<Rightarrow> string + json option" where
  "get_property v k =
     (case v of
        JNull \<Rightarrow> Inl ''Cannot read properties of null''
      | JObj props \<Rightarrow> Inr (map_of props k)
      | _ \<Rightarrow> Inr None)"

text \<open>ToBoolean on a parsed value.\<close>

fun truthy :: "json \<Rightarrow> bool" where
  "truthy JNull = False"
| "truthy (JBool b) = b"
| "truthy (JNum x) = (x \<noteq> 0)"
| "truthy (JStr s) = (s \<noteq> [])"
| "truthy (JArr _) = True"
| "truthy (JObj _) = True"

text \<open>\<^verbatim>\<open>v || d\<close> where \<open>v\<close> may be \<^verbatim>\<open>undefined\<close>.\<close>

definition js_or :: "json option \<Rightarrow> json \<Rightarrow> json" where
  "js_or v d = (case v of None \<Rightarrow> d | Some x \<Rightarrow> if truthy x then x else d)"

text \<open>
  The white space \<^verbatim>\<open>String.prototype.trim\<close> removes (WhiteSpace and LineTerminator of
  ECMAScript), each code point as its UTF-8 bytes: TAB, LF, VT, FF, CR, SP, U+00A0, U+1680,
  U+2000 to U+200A, U+2028, U+2029, U+202F, U+205F, U+3000, U+FEFF.
\<close>

definition js_white_space :: "string list" where
  "js_white_space =
     [[CHR 0x09], [CHR 0x0A], [CHR 0x0B], [CHR 0x0C], [CHR 0x0D], [CHR 0x20],
      [CHR 0xC2, CHR 0xA0], [CHR 0xE1, CHR 0x9A, CHR 0x80],
      [CHR 0xE2, CHR 0x80, CHR 0x80], [CHR 0xE2, CHR 0x80, CHR 0x81],
      [CHR 0xE2, CHR 0x80, CHR 0x82], [CHR 0xE2, CHR 0x80, CHR 0x83],
      [CHR 0xE2, CHR 0x80, CHR 0x84], [CHR 0xE2, CHR 0x80, CHR 0x85],
      [CHR 0xE2, CHR 0x80, CHR 0x86], [CHR 0xE2, CHR 0x80, CHR 0x87],
      [CHR 0xE2, CHR 0x80, CHR 0x88], [CHR 0xE2, CHR 0x80, CHR 0x89],
      [CHR 0xE2, CHR 0x80, CHR 0x8A], [CHR 0xE2, CHR 0x80, CHR 0xA8],
      [CHR 0xE2, CHR 0x80, CHR 0xA9], [CHR 0xE2, CHR 0x80, CHR 0xAF],
      [CHR 0xE2, CHR 0x81, CHR 0x9F], [CHR 0xE3, CHR 0x80, CHR 0x80],
      [CHR 0xEF, CHR 0xBB, CHR 0xBF]]"

text \<open>The number of bytes of the white-space code point the text starts (ends) with, 0
  when it starts (ends) with none.\<close>

definition leading_space :: "string \<Rightarrow> nat" where
  "leading_space s = (case find (\<lambda>w. prefix w s) js_white_space of None \<Rightarrow> 0 | Some w \<Rightarrow> length w)"

definition trailing_space :: "string \<Rightarrow> nat" where
  "trailing_space s = (case find (\<lambda>w. suffix w s) js_white_space of None \<Rightarrow> 0 | Some w \<Rightarrow> length w)"

lemma leading_space_Nil: "leading_space [] = 0"
  by (simp add: leading_space_def js_white_space_def)

lemma trailing_space_Nil: "trailing_space [] = 0"
  by (simp add: trailing_space_def js_white_space_def)

function trimStart :: "string \<Rightarrow> string" where
  "trimStart s = (if leading_space s = 0 then s else trimStart (drop (leading_space s) s))"
  by pat_completeness auto
termination
proof (relation "measure length")
  fix s :: string
  assume "leading_space s \<noteq> 0"
  then have "s \<noteq> []"
    using leading_space_Nil by auto
  with \<open>leading_space s \<noteq> 0\<close> show "(drop (leading_space s) s, s) \<in> measure length"
    by simp
qed simp

function trimEnd :: "string \<Rightarrow> string" where
  "trimEnd s =
     (if trailing_space s = 0 then s else trimEnd (take (length s - trailing_space s) s))"
  by pat_completeness auto
termination
proof (relation "measure length")
  fix s :: string
  assume "trailing_space s \<noteq> 0"
  then have "s \<noteq> []"
    using trailing_space_Nil by auto
  with \<open>trailing_space s \<noteq> 0\<close> show "(take (length s - trailing_space s) s, s) \<in> measure length"
    by simp
qed simp

declare trimStart.simps [simp del] trimEnd.simps [simp del]

definition trim :: "string \<Rightarrow> string" where
  "trim s = trimEnd (trimStart s)"

definition fence :: string where
  "fence = [CHR 0x60, CHR 0x60, CHR 0x60]"

definition newline :: string where
  "newline = [CHR 0x0A]"

text \<open>
  \<^verbatim>\<open>.replace(/```json\n?|```\n?/g, "")\<close>: from left to right, at each position the first
  alternative that matches is removed, the optional line feed included when it is there.
\<close>

function strip_fences :: "string \<Rightarrow> string" where
  "strip_fences s =
     (if s = [] then []
      else if prefix (fence @ ''json'' @ newline) s then strip_fences (drop 8 s)
      else if prefix (fence @ ''json'') s then strip_fences (drop 7 s)
      else if prefix (fence @ newline) s then strip_fences (drop 4 s)
      else if prefix fence s then strip_fences (drop 3 s)
      else hd s # strip_fences (tl s))"
  by pat_completeness auto
termination
  by (relation "measure length") auto

declare strip_fences.simps [simp del]

subsection \<open>The workflow's environment\<close>

record urgency_assessment =
  u_level :: json
  u_confidence :: json
  u_reason :: json
  u_category :: json

text \<open>\<^verbatim>\<open>event.payload\<close>\<close>

record payload =
  p_feedbackId :: int
  p_message :: string
  p_source :: string
  p_author :: string
  p_sentiment :: string

text \<open>The argument of \<^verbatim>\<open>sendSlackNotification\<close>.\<close>

record notification =
  n_feedbackId :: int
  n_message :: string
  n_source :: string
  n_author :: string
  n_sentiment :: string
  n_urgency :: urgency_assessment

record fetch_response =
  ok :: bool
  status :: nat

text \<open>
  What the workflow class reaches outside itself. \<open>AI_run\<close> is \<^verbatim>\<open>this.env.AI.run\<close> on the
  chat model, given the system and the user message; it throws or returns
  \<^verbatim>\<open>response.response\<close> (\<open>None\<close> when that is \<^verbatim>\<open>undefined\<close>). \<open>JSON_parse\<close> is the built-in
  \<^verbatim>\<open>JSON.parse\<close>, \<open>None\<close> for a SyntaxError. \<open>fetch\<close> posts to the webhook; the body it
  sends is \<^verbatim>\<open>formatSlackMessage\<close> of the notification, so it is given the notification.
  \<open>Date_now\<close> is \<^verbatim>\<open>new Date().toISOString()\<close>.
\<close>

record workflow_env =
  AI_run :: "string \<Rightarrow> string \<Rightarrow> string + string option"
  JSON_parse :: "string \<Rightarrow> json option"
  SLACK_WEBHOOK_URL :: "string option"
  fetch :: "string \<Rightarrow> notification \<Rightarrow> string + fetch_response"
  Date_now :: string

subsection \<open>analyzeUrgency\<close>

definition dquote :: string where
  "dquote = [CHR 0x22]"

definition urgency_prompt :: "string \<Rightarrow> string \<Rightarrow> string" where
  "urgency_prompt message sentiment =
     ''Analyze this customer feedback for urgency. Classify as CRITICAL, HIGH, or NORMAL.''
     @ newline @ newline
     @ ''CRITICAL = Security issues, complete service failures, data loss, payment errors, legal threats''
     @ newline
     @ ''HIGH = Major bugs, broken features, workflow blockers, angry customers''
     @ newline
     @ ''NORMAL = Feature requests, minor bugs, general feedback''
     @ newline @ newline
     @ ''Feedback: '' @ dquote @ message @ dquote
     @ newline
     @ ''Sentiment: '' @ sentiment
     @ newline @ newline
     @ ''Respond ONLY with JSON: {'' @ dquote @ ''level'' @ dquote @ '': ''
     @ dquote @ ''CRITICAL|HIGH|NORMAL'' @ dquote @ '', ''
     @ dquote @ ''confidence'' @ dquote @ '': 0.0-1.0, ''
     @ dquote @ ''reason'' @ dquote @ '': '' @ dquote @ ''brief explanation'' @ dquote @ '', ''
     @ dquote @ ''category'' @ dquote @ '': '' @ dquote @ ''issue type'' @ dquote @ ''}''"

text \<open>The content of the system message.\<close>

definition system_content :: string where
  "system_content = ''You are an urgency classifier. Return only valid JSON with no markdown.''"

text \<open>The value the \<^verbatim>\<open>catch\<close> block returns.\<close>

definition urgency_fallback :: "string \<Rightarrow> urgency_assessment" where
  "urgency_fallback sentiment =
     \<lparr>u_level = (if sentiment = ''negative'' then JStr ''HIGH'' else JStr ''NORMAL''),
      u_confidence = JNum 0.5,
      u_reason = JStr ''Fallback classification based on sentiment'',
      u_category = JStr ''General''\<rparr>"

text \<open>\<^verbatim>\<open>response.response?.trim() || "{}"\<close>\<close>

definition response_text :: "string option \<Rightarrow> string" where
  "response_text r =
     (case r of None \<Rightarrow> ''{}'' | Some t \<Rightarrow> if trim t = [] then ''{}'' else trim t)"

definition analyzeUrgency :: "workflow_env \<Rightarrow> string \<Rightarrow> string \<Rightarrow> urgency_assessment" where
  "analyzeUrgency w message sentiment =
     (case AI_run w system_content (urgency_prompt message sentiment) of
        Inl msg \<Rightarrow> urgency_fallback sentiment
      | Inr response \<Rightarrow>
          (let responseText = response_text response;
               cleanedResponse = trim (strip_fences responseText)
           in case JSON_parse w cleanedResponse of
                None \<Rightarrow> urgency_fallback sentiment
              | Some analysis \<Rightarrow>
                  (case get_property analysis ''level'' of
                     Inl msg \<Rightarrow> urgency_fallback sentiment
                   | Inr level \<Rightarrow>
                  (case get_property analysis ''confidence'' of
                     Inl msg \<Rightarrow> urgency_fallback sentiment
                   | Inr confidence \<Rightarrow>
                  (case get_property analysis ''reason'' of
                     Inl msg \<Rightarrow> urgency_fallback sentiment
                   | Inr reason \<Rightarrow>
                  (case get_property analysis ''category'' of
                     Inl msg \<Rightarrow> urgency_fallback sentiment
                   | Inr category \<Rightarrow>
                       \<lparr>u_level = js_or level (JStr ''NORMAL''),
                        u_confidence = js_or confidence (JNum 0.5),
                        u_reason = js_or reason (JStr ''No specific reason provided''),
                        u_category = js_or category (JStr ''General'')\<rparr>))))))"

subsection \<open>sendSlackNotification\<close>

record slack_result =
  sl_success :: bool
  sl_reason :: "string option"
  sl_timestamp :: "string option"

text \<open>Without a webhook the step returns; a transport error or a response that is not
  \<^verbatim>\<open>ok\<close> is thrown again, for the workflow to retry.\<close>

definition sendSlackNotification :: "workflow_env \<Rightarrow> notification \<Rightarrow> string + slack_result" where
  "sendSlackNotification w data =
     (case SLACK_WEBHOOK_URL w of
        None \<Rightarrow>
          Inr \<lparr>sl_success = False, sl_reason = Some ''No webhook configured'', sl_timestamp = None\<rparr>
      | Some webhookUrl \<Rightarrow>
          if webhookUrl = [] then
            Inr \<lparr>sl_success = False, sl_reason = Some ''No webhook configured'', sl_timestamp = None\<rparr>
          else
            (case fetch w webhookUrl data of
               Inl msg \<Rightarrow> Inl msg
             | Inr response \<Rightarrow>
                 if \<not> ok response then Inl (''Slack API error: '' @ digits (status response))
                 else Inr \<lparr>sl_success = True, sl_reason = None, sl_timestamp = Some (Date_now w)\<rparr>))"

subsection \<open>run\<close>

text \<open>
  \<^verbatim>\<open>step.do(name, callback)\<close>: the step's name is appended to the list of the steps the run
  has entered and the callback is run; what it throws, the run throws.
\<close>

definition step_do :: "string list \<Rightarrow> string \<Rightarrow> (unit \<Rightarrow> string + 'a) \<Rightarrow> string list \<times> (string + 'a)" where
  "step_do entered name callback = (entered @ [name], callback ())"

record run_result =
  r_success :: bool
  r_urgency :: json
  r_notified :: bool

text \<open>A run: the steps it entered, in order, and what it returned or threw.\<close>

record run_trace =
  steps :: "string list"
  outcome :: "string + run_result"

definition run :: "workflow_env \<Rightarrow> payload \<Rightarrow> run_trace" where
  "run w event =
     (case step_do [] ''analyze-urgency''
             (\<lambda>_. Inr (analyzeUrgency w (p_message event) (p_sentiment event))) of
        (entered, Inl msg) \<Rightarrow> \<lparr>steps = entered, outcome = Inl msg\<rparr>
      | (entered, Inr urgency) \<Rightarrow>
          if u_level urgency = JStr ''CRITICAL'' \<or> u_level urgency = JStr ''HIGH'' then
            (case step_do entered ''send-slack-notification''
                    (\<lambda>_. sendSlackNotification w
                       \<lparr>n_feedbackId = p_feedbackId event, n_message = p_message event,
                        n_source = p_source event, n_author = p_author event,
                        n_sentiment = p_sentiment event, n_urgency = urgency\<rparr>) of
               (entered', Inl msg) \<Rightarrow> \<lparr>steps = entered', outcome = Inl msg\<rparr>
             | (entered', Inr _) \<Rightarrow>
                 \<lparr>steps = entered',
                  outcome = Inr \<lparr>r_success = True, r_urgency = u_level urgency,
                    r_notified = (u_level urgency = JStr ''CRITICAL'' \<or> u_level urgency = JStr ''HIGH'')\<rparr>\<rparr>)
          else
            \<lparr>steps = entered,
             outcome = Inr \<lparr>r_success = True, r_urgency = u_level urgency,
               r_notified = (u_level urgency = JStr ''CRITICAL'' \<or> u_level urgency = JStr ''HIGH'')\<rparr>\<rparr>)"

section \<open>Auxiliary definitions\<close>

text \<open>The body of the 200 response that reports no similar feedback.\<close>

definition no_similar_body :: "feedback_row \<Rightarrow> similar_body" where
  "no_similar_body original =
     \<lparr>sb_original = Some original, sb_similar = Some [], sb_scores = None,
      sb_message = Some ''No similar feedback found (minimum 60% similarity required)'',
      sb_error = None, sb_details = None\<rparr>"

text \<open>\<^verbatim>\<open>.map(match => ({id: match.id, score: match.score}))\<close>\<close>

definition to_scores :: "vector_match list \<Rightarrow> score_entry list" where
  "to_scores ms = map (\<lambda>m. \<lparr>s_id = m_id m, s_score = m_score m\<rparr>) ms"

text \<open>The assessment the specification describes: \<^verbatim>\<open>level\<close> one of CRITICAL, HIGH,
  NORMAL, \<^verbatim>\<open>confidence\<close> a number in [0,1].\<close>

definition valid_level :: "json \<Rightarrow> bool" where
  "valid_level v = (v = JStr ''CRITICAL'' \<or> v = JStr ''HIGH'' \<or> v = JStr ''NORMAL'')"

definition valid_confidence :: "json \<Rightarrow> bool" where
  "valid_confidence v = (case v of JNum c \<Rightarrow> 0 \<le> c \<and> c \<le> 1 | _ \<Rightarrow> False)"

definition valid_assessment :: "urgency_assessment \<Rightarrow> bool" where
  "valid_assessment u = (valid_level (u_level u) \<and> valid_confidence (u_confidence u))"

section \<open>Example data\<close>

text \<open>A table of three rows, an index answering every query with the given ranked
  matches, and an insert that fails for the vector of row 2.\<close>

definition example_row :: "int \<Rightarrow> string \<Rightarrow> feedback_row" where
  "example_row i msg =
     \<lparr>fb_id = i, fb_source = ''Discord'', fb_message = msg,
      fb_timestamp = ''2025-01-01 00:00:00'', fb_sentiment = Some ''negative'',
      fb_category = None, fb_author = None\<rparr>"

definition example_rows :: "feedback_row list" where
  "example_rows =
     [example_row 1 ''The app keeps crashing'',
      example_row 2 ''App freezes on launch'',
      example_row 3 ''Crashes after the update'']"

definition example_match :: "string \<Rightarrow> real \<Rightarrow> vector_match" where
  "example_match i sc = \<lparr>m_id = i, m_score = sc, m_metadata = None\<rparr>"

definition example_env :: "feedback_row list \<Rightarrow> vector_match list \<Rightarrow> env" where
  "example_env rows ms =
     \<lparr>DB = Inr rows,
      AI_embed = (\<lambda>t. Inr [[1, 0]]),
      VECTORIZE_query = (\<lambda>v k. Inr ms),
      VECTORIZE_insert = (\<lambda>ix v. if v_id v = ''2'' then Inl ''insert failed'' else Inr ()),
      now = ''2025-01-01T00:00:00.000Z''\<rparr>"

text \<open>Ranked matches, the record itself (id 1) first: with one similar record and one
  below the threshold; with the lower-ranked record below the threshold; with an id that
  has no row; with no record above the threshold; with a ranking against the table order.\<close>

definition matches_with_self :: "vector_match list" where
  "matches_with_self = [example_match ''1'' 1, example_match ''2'' 0.9, example_match ''3'' 0.3]"

definition matches_below_threshold :: "vector_match list" where
  "matches_below_threshold = [example_match ''1'' 1, example_match ''3'' 0.7, example_match ''2'' 0.3]"

definition matches_missing_row :: "vector_match list" where
  "matches_missing_row = [example_match ''1'' 1, example_match ''2'' 0.9, example_match ''7'' 0.7]"

definition matches_none_similar :: "vector_match list" where
  "matches_none_similar = [example_match ''1'' 1, example_match ''3'' 0.3]"

definition matches_against_table_order :: "vector_match list" where
  "matches_against_table_order = [example_match ''1'' 1, example_match ''3'' 0.9, example_match ''2'' 0.7]"

text \<open>Six rows, out of id order.\<close>

definition backfill_rows :: "feedback_row list" where
  "backfill_rows =
     [example_row 3 ''Crashes after the update'',
      example_row 1 ''The app keeps crashing'',
      example_row 2 ''App freezes on launch'',
      example_row 6 ''Love the new dashboard'',
      example_row 5 ''Checkout fails with error 500'',
      example_row 4 ''Please add dark mode'']"

text \<open>Two responses of the model, the second also inside a code fence; a \<^verbatim>\<open>JSON.parse\<close>
  that gives what the built-in gives on these two texts and rejects the one other text
  the examples parse (\<^verbatim>\<open>It is HIGH\<close>, a SyntaxError for the built-in too); a workflow
  environment whose model always answers (or throws) the same and which has no webhook.\<close>

definition reply_urgent :: string where
  "reply_urgent = ''{'' @ dquote @ ''level'' @ dquote @ '':'' @ dquote @ ''URGENT'' @ dquote
     @ '','' @ dquote @ ''confidence'' @ dquote @ '':7}''"

definition reply_high :: string where
  "reply_high = ''{'' @ dquote @ ''level'' @ dquote @ '':'' @ dquote @ ''HIGH'' @ dquote
     @ '','' @ dquote @ ''confidence'' @ dquote @ '':0.9}''"

definition reply_fenced :: string where
  "reply_fenced = fence @ ''json'' @ newline @ reply_high @ newline @ fence"

definition example_parse :: "string \<Rightarrow> json option" where
  "example_parse s =
     (if s = reply_urgent then Some (JObj [(''level'', JStr ''URGENT''), (''confidence'', JNum 7)])
      else if s = reply_high then Some (JObj [(''level'', JStr ''HIGH''), (''confidence'', JNum 0.9)])
      else None)"

definition example_workflow_env :: "(string + string option) \<Rightarrow> workflow_env" where
  "example_workflow_env reply =
     \<lparr>AI_run = (\<lambda>system user. reply),
      JSON_parse = example_parse,
      SLACK_WEBHOOK_URL = None,
      fetch = (\<lambda>url data. Inr \<lparr>ok = True, status = 200\<rparr>),
      Date_now = ''2025-01-01T00:00:00.000Z''\<rparr>"

definition example_payload :: "string \<Rightarrow> payload" where
  "example_payload sentiment =
     \<lparr>p_feedbackId = 1, p_message = ''The app keeps crashing'', p_source = ''Discord'',
      p_author = ''Bob'', p_sentiment = sentiment\<rparr>"

section \<open>Properties\<close>

subsection \<open>Ids as text\<close>

lemma toString_examples:
  "toString 1 = ''1''" "toString 2 = ''2''" "toString 3 = ''3''"
  by code_simp+

lemma numeric_text_examples:
  "numeric_text ''1'' = Some 1" "numeric_text ''2'' = Some 2" "numeric_text ''3'' = Some 3"
  "numeric_text ''7'' = Some 7" "numeric_text ''01'' = Some 1"
  by code_simp+

lemma numeric_text_more:
  "numeric_text ''1.0'' = Some 1" "numeric_text '' 1'' = Some 1" "numeric_text ''+1'' = Some 1"
  "numeric_text ''1e0'' = Some 1" "numeric_text ''abc'' = None" "numeric_text ''1a'' = None"
  by code_simp+

lemma digits_value_digits: "digits_value (digits n) = n"
proof (induction n rule: digits.induct)
  case (1 n)
  show ?case
  proof (cases "n < 10")
    case True
    then show ?thesis
      by (simp add: digits.simps [of n] digits_value_def digit_char_def)
  next
    case False
    with 1 have "digits_value (digits (n div 10)) = n div 10" by simp
    moreover have "of_char (digit_char (n mod 10)) - 48 = n mod 10"
      by (simp add: digit_char_def)
    ultimately show ?thesis using False
      by (simp add: digits.simps [of n] digits_value_def)
  qed
qed

lemma is_digit_digit_char: "k < 10 \<Longrightarrow> is_digit (digit_char k)"
  by (simp add: is_digit_def digit_char_def)

lemma digits_are_digits: "c \<in> set (digits n) \<Longrightarrow> is_digit c"
proof (induction n arbitrary: c rule: digits.induct)
  case (1 n)
  show ?case
  proof (cases "n < 10")
    case True
    with 1(2) show ?thesis
      by (simp add: digits.simps [of n] is_digit_digit_char)
  next
    case False
    with 1 show ?thesis
      by (auto simp: digits.simps [of n] is_digit_digit_char)
  qed
qed

lemma digits_not_Nil: "digits n \<noteq> []"
  by (simp add: digits.simps [of n])

lemma is_digit_other:
  assumes "is_digit c"
  shows "\<not> is_space c" "c \<noteq> CHR ''-''" "c \<noteq> CHR ''+''"
  using assms by (auto simp: is_digit_def is_space_def)

lemma numeric_text_digits:
  assumes "ds \<noteq> []" and "\<forall>c \<in> set ds. is_digit c"
  shows "numeric_text ds = Some (of_nat (digits_value ds))"
    and "numeric_text (CHR ''-'' # ds) = Some (- of_nat (digits_value ds))"
proof -
  from assms obtain c cs where ds: "ds = c # cs" and c: "is_digit c"
    by (cases ds) auto
  have tw: "takeWhile is_digit ds = ds" and dw: "dropWhile is_digit ds = []"
    using assms(2) by simp_all
  have sp: "dropWhile is_space ds = ds"
    using is_digit_other(1) [OF c] by (simp add: ds)
  have sg: "take_sign ds = (1, ds)"
    using is_digit_other(2,3) [OF c] by (simp add: ds take_sign_def)
  have zero: "digits_value [] = 0" by (simp add: digits_value_def)
  show "numeric_text ds = Some (of_nat (digits_value ds))"
    using assms(1) by (simp add: numeric_text_def sp sg tw dw zero pow10_def)
  have sp': "dropWhile is_space (CHR ''-'' # ds) = CHR ''-'' # ds"
    by (simp add: is_space_def)
  have sg': "take_sign (CHR ''-'' # ds) = (- 1, ds)"
    by (simp add: take_sign_def)
  show "numeric_text (CHR ''-'' # ds) = Some (- of_nat (digits_value ds))"
    unfolding numeric_text_def sp' sg'
    using assms(1) by (simp add: tw dw zero pow10_def)
qed

lemma numeric_text_toString: "numeric_text (toString i) = Some (of_int i)"
proof (cases "i < 0")
  case True
  have "numeric_text (CHR ''-'' # digits (nat (- i))) = Some (- of_nat (digits_value (digits (nat (- i)))))"
    by (rule numeric_text_digits(2)) (auto simp: digits_not_Nil dest: digits_are_digits)
  with True show ?thesis
    by (simp add: toString_def digits_value_digits)
next
  case False
  have "numeric_text (digits (nat i)) = Some (of_nat (digits_value (digits (nat i))))"
    by (rule numeric_text_digits(1)) (auto simp: digits_not_Nil dest: digits_are_digits)
  with False show ?thesis
    by (simp add: toString_def digits_value_digits)
qed

lemma toString_inj: "toString i = toString j \<Longrightarrow> i = j"
proof -
  assume "toString i = toString j"
  then have "numeric_text (toString i) = numeric_text (toString j)" by simp
  then show "i = j" by (simp add: numeric_text_toString)
qed

subsection \<open>The similarity handler\<close>

lemma surviving_threshold: "m \<in> set (surviving feedbackId matches) \<Longrightarrow> 0.6 \<le> m_score m"
  by (auto simp: surviving_def dest: in_set_takeD)

lemma surviving_not_self: "m \<in> set (surviving feedbackId matches) \<Longrightarrow> m_id m \<noteq> feedbackId"
  by (auto simp: surviving_def dest: in_set_takeD)

lemma surviving_length: "length (surviving feedbackId matches) \<le> 5"
  by (simp add: surviving_def)

lemma surviving_subseq: "subseq (surviving feedbackId matches) matches"
proof -
  have "subseq (surviving feedbackId matches)
          (filter (\<lambda>m. m_id m \<noteq> feedbackId \<and> m_score m \<ge> 0.6) matches)"
    unfolding surviving_def by (rule prefix_imp_subseq) (rule take_is_prefix)
  also have "subseq \<dots> matches" by simp
  finally show ?thesis .
qed

lemma handleSimilarFeedback_found:
  assumes "feedbackId \<noteq> []"
    and "DB e = Inr rows"
    and "filter (\<lambda>r. id_is r feedbackId) rows = original # rest"
    and "generateEmbedding e (fb_message original) = Inr embedding"
    and "VECTORIZE_query e embedding 6 = Inr matches"
  shows "handleSimilarFeedback e (Some feedbackId) =
           (if surviving feedbackId matches = []
            then \<lparr>sr_status = 200, sr_body = no_similar_body original\<rparr>
            else \<lparr>sr_status = 200,
                  sr_body = \<lparr>sb_original = Some original,
                    sb_similar = Some (filter (\<lambda>r. list_ex (id_is r)
                                    (map m_id (surviving feedbackId matches))) rows),
                    sb_scores = Some (to_scores (surviving feedbackId matches)),
                    sb_message = None, sb_error = None, sb_details = None\<rparr>\<rparr>)"
  using assms
  by (simp add: handleSimilarFeedback_def select_by_id_def select_in_def d1_all_def
      empty_similar_body_def no_similar_body_def to_scores_def Let_def)

lemma original_inversion:
  assumes "sb_original (sr_body (handleSimilarFeedback e idParam)) = Some original"
  shows "\<exists>feedbackId rest embedding matches rows.
           idParam = Some feedbackId \<and> feedbackId \<noteq> [] \<and> DB e = Inr rows \<and>
           filter (\<lambda>r. id_is r feedbackId) rows = original # rest \<and>
           generateEmbedding e (fb_message original) = Inr embedding \<and>
           VECTORIZE_query e embedding 6 = Inr matches"
  using assms
  by (auto simp: handleSimilarFeedback_def select_by_id_def select_in_def d1_all_def
      empty_similar_body_def similar_failure_def Let_def
      split: option.splits sum.splits list.splits if_splits)

lemma no_original_no_lists:
  assumes "sb_original (sr_body (handleSimilarFeedback e idParam)) = None"
  shows "sb_similar (sr_body (handleSimilarFeedback e idParam)) = None \<and>
         sb_scores (sr_body (handleSimilarFeedback e idParam)) = None \<and>
         sr_status (handleSimilarFeedback e idParam) \<noteq> 200"
  using assms
  by (auto simp: handleSimilarFeedback_def select_by_id_def select_in_def d1_all_def
      empty_similar_body_def similar_failure_def Let_def
      split: option.splits sum.splits list.splits if_splits)

lemmas example_simps =
  handleSimilarFeedback_def example_env_def example_rows_def example_row_def
  example_match_def select_by_id_def select_in_def d1_all_def id_is_def
  numeric_text_examples surviving_def generateEmbedding_def empty_similar_body_def

text \<open>
  C1 (self-exclusion): the original record's own id never appears in the response. The
  request \<^verbatim>\<open>?id=01\<close> selects the row with id 1 as the original; the filter compares the id
  of each match with the text of the request, \<^verbatim>\<open>'1' !== '01'\<close> holds, and the record's own
  match stays: the response is a 200 whose \<^verbatim>\<open>similar\<close> begins with the original itself and
  whose \<^verbatim>\<open>scores\<close> begins with its id.
\<close>

theorem self_match_returned:
  "select_by_id (example_env example_rows matches_with_self) ''01''
     = Inr [example_row 1 ''The app keeps crashing''] \<and>
   toString (fb_id (example_row 1 ''The app keeps crashing'')) = ''1'' \<and>
   handleSimilarFeedback (example_env example_rows matches_with_self) (Some ''01'') =
     \<lparr>sr_status = 200,
      sr_body = \<lparr>sb_original = Some (example_row 1 ''The app keeps crashing''),
        sb_similar = Some [example_row 1 ''The app keeps crashing'',
                          example_row 2 ''App freezes on launch''],
        sb_scores = Some [\<lparr>s_id = ''1'', s_score = 1\<rparr>, \<lparr>s_id = ''2'', s_score = 0.9\<rparr>],
        sb_message = None, sb_error = None, sb_details = None\<rparr>\<rparr>"
  by (simp add: example_simps matches_with_self_def toString_examples)

lemma surviving_sorted:
  assumes "sorted_wrt (\<ge>) (map m_score matches)"
  shows "sorted_wrt (\<ge>) (map m_score (surviving feedbackId matches))"
proof -
  from assms have "sorted_wrt (\<lambda>x y. m_score x \<ge> m_score y) matches"
    by (simp add: sorted_wrt_map)
  then have "sorted_wrt (\<lambda>x y. m_score x \<ge> m_score y) (surviving feedbackId matches)"
    unfolding surviving_def by (intro sorted_wrt_take sorted_wrt_filter)
  then show ?thesis by (simp add: sorted_wrt_map)
qed

lemma select_in_length:
  assumes "distinct (map fb_id rows)"
  shows "length (filter (\<lambda>r. list_ex (id_is r) ids) rows) \<le> length ids"
    and "distinct ids \<Longrightarrow> \<forall>i \<in> set ids. \<exists>r \<in> set rows. toString (fb_id r) = i \<Longrightarrow>
         length (filter (\<lambda>r. list_ex (id_is r) ids) rows) = length ids"
proof -
  let ?f = "\<lambda>r. (of_int (fb_id r) :: rat)"
  let ?v = "\<lambda>s. the (numeric_text s)"
  let ?sel = "filter (\<lambda>r. list_ex (id_is r) ids) rows"
  from assms have "distinct (map ?f rows)"
    by (simp add: distinct_map inj_on_def)
  then have d: "distinct (map ?f ?sel)"
    by (rule distinct_map_filter)
  then have len: "length ?sel = card (set (map ?f ?sel))"
    by (metis distinct_card length_map)
  have sub: "set (map ?f ?sel) \<subseteq> ?v ` set ids"
    by (force simp: list_ex_iff id_is_def image_iff)
  then have "card (set (map ?f ?sel)) \<le> card (?v ` set ids)"
    by (simp add: card_mono)
  also have "\<dots> \<le> card (set ids)" by (simp add: card_image_le)
  also have "\<dots> \<le> length ids" by (rule card_length)
  finally show "length ?sel \<le> length ids" using len by simp
  assume di: "distinct ids" and all: "\<forall>i \<in> set ids. \<exists>r \<in> set rows. toString (fb_id r) = i"
  have inj: "inj_on ?v (set ids)"
  proof (rule inj_onI)
    fix i j
    assume "i \<in> set ids" "j \<in> set ids" and eq: "?v i = ?v j"
    with all obtain a b where "toString a = i" "toString b = j" by blast
    with eq show "i = j" by (auto simp: numeric_text_toString)
  qed
  have "?v ` set ids \<subseteq> set (map ?f ?sel)"
  proof
    fix x
    assume "x \<in> ?v ` set ids"
    then obtain i where i: "i \<in> set ids" "x = ?v i" by blast
    with all obtain r where r: "r \<in> set rows" "toString (fb_id r) = i" by blast
    then have "numeric_text i = Some (?f r)"
      using numeric_text_toString [of "fb_id r"] by simp
    with i r show "x \<in> set (map ?f ?sel)"
      by (auto simp: list_ex_iff id_is_def image_iff)
  qed
  with sub have "set (map ?f ?sel) = ?v ` set ids" by blast
  with len have "length ?sel = card (?v ` set ids)" by simp
  also have "\<dots> = card (set ids)" using inj by (rule card_image)
  also have "\<dots> = length ids" using di by (rule distinct_card)
  finally show "length ?sel = length ids" .
qed

lemma similar_response_cases:
  obtains
    (failed) "sb_original (sr_body (handleSimilarFeedback e idParam)) = None"
      "sb_similar (sr_body (handleSimilarFeedback e idParam)) = None"
      "sb_scores (sr_body (handleSimilarFeedback e idParam)) = None"
      "sr_status (handleSimilarFeedback e idParam) \<noteq> 200"
  | (none) feedbackId original rows rest embedding matches where
      "idParam = Some feedbackId" "feedbackId \<noteq> []" "DB e = Inr rows"
      "filter (\<lambda>r. id_is r feedbackId) rows = original # rest"
      "generateEmbedding e (fb_message original) = Inr embedding"
      "VECTORIZE_query e embedding 6 = Inr matches"
      "surviving feedbackId matches = []"
      "handleSimilarFeedback e idParam = \<lparr>sr_status = 200, sr_body = no_similar_body original\<rparr>"
  | (some) feedbackId original rows rest embedding matches where
      "idParam = Some feedbackId" "feedbackId \<noteq> []" "DB e = Inr rows"
      "filter (\<lambda>r. id_is r feedbackId) rows = original # rest"
      "generateEmbedding e (fb_message original) = Inr embedding"
      "VECTORIZE_query e embedding 6 = Inr matches"
      "surviving feedbackId matches \<noteq> []"
      "handleSimilarFeedback e idParam =
         \<lparr>sr_status = 200,
          sr_body = \<lparr>sb_original = Some original,
            sb_similar = Some (filter (\<lambda>r. list_ex (id_is r)
                            (map m_id (surviving feedbackId matches))) rows),
            sb_scores = Some (to_scores (surviving feedbackId matches)),
            sb_message = None, sb_error = None, sb_details = None\<rparr>\<rparr>"
proof (cases "sb_original (sr_body (handleSimilarFeedback e idParam))")
  case None
  with no_original_no_lists [OF None] failed show ?thesis by blast
next
  case (Some original)
  from original_inversion [OF Some] obtain feedbackId rest embedding matches rows where
    found: "feedbackId \<noteq> []" "DB e = Inr rows"
      "filter (\<lambda>r. id_is r feedbackId) rows = original # rest"
      "generateEmbedding e (fb_message original) = Inr embedding"
      "VECTORIZE_query e embedding 6 = Inr matches" and p: "idParam = Some feedbackId"
    by blast
  note resp = handleSimilarFeedback_found [OF found]
  show ?thesis
  proof (cases "surviving feedbackId matches = []")
    case True
    with resp p found none show ?thesis by simp
  next
    case False
    with resp p found some show ?thesis by simp
  qed
qed

text \<open>
  C2 (threshold). Whatever matches the index returns, the filter keeps none with a score
  below 0.6; every entry of \<^verbatim>\<open>scores\<close> has a score of at least 0.6, and every row of
  \<^verbatim>\<open>similar\<close> is selected by the id of such an entry.
\<close>

theorem scores_meet_threshold:
  "(\<forall>m \<in> set (surviving feedbackId matches). 0.6 \<le> m_score m) \<and>
   (case sb_scores (sr_body (handleSimilarFeedback e idParam)) of
      None \<Rightarrow> True
    | Some scores \<Rightarrow> \<forall>s \<in> set scores. 0.6 \<le> s_score s) \<and>
   (case sb_similar (sr_body (handleSimilarFeedback e idParam)) of
      None \<Rightarrow> True
    | Some similar \<Rightarrow>
        (case sb_scores (sr_body (handleSimilarFeedback e idParam)) of
           None \<Rightarrow> similar = []
         | Some scores \<Rightarrow>
             \<forall>r \<in> set similar. \<exists>s \<in> set scores.
                id_is r (s_id s) \<and> 0.6 \<le> s_score s))"
proof -
  have filt: "\<forall>m \<in> set (surviving feedbackId matches). 0.6 \<le> m_score m"
    by (auto dest: surviving_threshold)
  show ?thesis
  proof (cases e idParam rule: similar_response_cases)
    case failed
    with filt show ?thesis by simp
  next
    case (none fid original rows rest embedding ms)
    with filt show ?thesis by (simp add: no_similar_body_def)
  next
    case (some fid original rows rest embedding ms)
    have "\<forall>s \<in> set (to_scores (surviving fid ms)). 0.6 \<le> s_score s"
      by (auto simp: to_scores_def dest: surviving_threshold)
    moreover have "\<exists>s \<in> set (to_scores (surviving fid ms)).
        id_is r (s_id s) \<and> 0.6 \<le> s_score s"
      if "list_ex (id_is r) (map m_id (surviving fid ms))" for r
    proof -
      from that obtain m where m: "m \<in> set (surviving fid ms)" "id_is r (m_id m)"
        by (auto simp: list_ex_iff)
      then have "\<lparr>s_id = m_id m, s_score = m_score m\<rparr> \<in> set (to_scores (surviving fid ms))"
        by (auto simp: to_scores_def)
      with m surviving_threshold [OF m(1)] show ?thesis
        by (intro bexI [where x = "\<lparr>s_id = m_id m, s_score = m_score m\<rparr>"]) auto
    qed
    ultimately show ?thesis
      using filt some(8) by simp
  qed
qed

theorem scores_meet_threshold_witness:
  "sb_scores (sr_body (handleSimilarFeedback (example_env example_rows matches_below_threshold) (Some ''1'')))
     = Some [\<lparr>s_id = ''3'', s_score = 0.7\<rparr>] \<and>
   sb_similar (sr_body (handleSimilarFeedback (example_env example_rows matches_below_threshold) (Some ''1'')))
     = Some [example_row 3 ''Crashes after the update''] \<and>
   (0.6::real) \<le> s_score \<lparr>s_id = ''3'', s_score = 0.7\<rparr>"
proof -
  have r: "handleSimilarFeedback (example_env example_rows matches_below_threshold) (Some ''1'') =
       \<lparr>sr_status = 200,
        sr_body = \<lparr>sb_original = Some (example_row 1 ''The app keeps crashing''),
          sb_similar = Some [example_row 3 ''Crashes after the update''],
          sb_scores = Some [\<lparr>s_id = ''3'', s_score = 0.7\<rparr>],
          sb_message = None, sb_error = None, sb_details = None\<rparr>\<rparr>"
    by (simp add: example_simps matches_below_threshold_def)
  from scores_meet_threshold [of "''1''" matches_below_threshold "example_env example_rows matches_below_threshold" "Some ''1''"]
  show ?thesis
    by (simp add: r)
qed

text \<open>
  C3 (bound), as stated: \<^verbatim>\<open>scores.length == similar.length\<close> in every 200 response. The
  index returns the id 7, which has no row: \<^verbatim>\<open>similar\<close> has one record, \<^verbatim>\<open>scores\<close> two.
\<close>

theorem lengths_differ_counterexample:
  "sr_status (handleSimilarFeedback (example_env example_rows matches_missing_row) (Some ''1'')) = 200 \<and>
   map_option length
     (sb_similar (sr_body (handleSimilarFeedback (example_env example_rows matches_missing_row) (Some ''1''))))
     = Some 1 \<and>
   map_option length
     (sb_scores (sr_body (handleSimilarFeedback (example_env example_rows matches_missing_row) (Some ''1''))))
     = Some 2"
  by (simp add: example_simps matches_missing_row_def)

text \<open>
  C3 (bound), amended. With the row ids of the table distinct (the primary key), a response
  without \<^verbatim>\<open>similar\<close> is not a 200; otherwise \<^verbatim>\<open>similar\<close> has at most 5 records; when there
  is no \<^verbatim>\<open>scores\<close> field \<^verbatim>\<open>similar\<close> is empty; when there is one,
  \<^verbatim>\<open>similar.length <= scores.length <= 5\<close>, and the two lengths are equal if the ids of
  \<^verbatim>\<open>scores\<close> are pairwise distinct and each has a row in the table.
\<close>

theorem similar_bounded:
  assumes "DB e = Inr rows" and "distinct (map fb_id rows)"
  shows "case sb_similar (sr_body (handleSimilarFeedback e idParam)) of
           None \<Rightarrow> sr_status (handleSimilarFeedback e idParam) \<noteq> 200
         | Some similar \<Rightarrow>
             length similar \<le> 5 \<and>
             (case sb_scores (sr_body (handleSimilarFeedback e idParam)) of
                None \<Rightarrow> similar = []
              | Some scores \<Rightarrow>
                  length similar \<le> length scores \<and> length scores \<le> 5 \<and>
                  (distinct (map s_id scores) \<and>
                   (\<forall>s \<in> set scores. \<exists>r \<in> set rows. toString (fb_id r) = s_id s)
                   \<longrightarrow> length similar = length scores))"
proof (cases e idParam rule: similar_response_cases)
  case failed
  then show ?thesis by simp
next
  case (none fid original rows' rest embedding ms)
  then show ?thesis by (simp add: no_similar_body_def)
next
  case (some fid original rows' rest embedding ms)
  with assms have rows: "rows' = rows" by simp
  let ?ids = "map m_id (surviving fid ms)"
  let ?similar = "filter (\<lambda>r. list_ex (id_is r) ?ids) rows"
  have ids: "map s_id (to_scores (surviving fid ms)) = ?ids"
    by (simp add: to_scores_def comp_def)
  have len: "length (to_scores (surviving fid ms)) = length ?ids"
    by (simp add: to_scores_def)
  have le: "length ?similar \<le> length ?ids"
    by (rule select_in_length(1) [OF assms(2)])
  have five: "length ?ids \<le> 5"
    by (simp add: surviving_length)
  have eq: "length ?similar = length ?ids"
    if "distinct (map s_id (to_scores (surviving fid ms)))"
      and "\<forall>s \<in> set (to_scores (surviving fid ms)). \<exists>r \<in> set rows. toString (fb_id r) = s_id s"
  proof (rule select_in_length(2) [OF assms(2)])
    from that(1) show "distinct ?ids" by (simp add: ids)
    from that(2) show "\<forall>i \<in> set ?ids. \<exists>r \<in> set rows. toString (fb_id r) = i"
      by (auto simp: to_scores_def)
  qed
  from le five eq show ?thesis
    by (simp add: some(8) rows len del: length_map)
qed

theorem similar_bounded_witness:
  "distinct (map fb_id example_rows) \<and>
   sb_similar (sr_body (handleSimilarFeedback (example_env example_rows matches_missing_row) (Some ''1'')))
     = Some [example_row 2 ''App freezes on launch''] \<and>
   sb_scores (sr_body (handleSimilarFeedback (example_env example_rows matches_missing_row) (Some ''1'')))
     = Some [\<lparr>s_id = ''2'', s_score = 0.9\<rparr>, \<lparr>s_id = ''7'', s_score = 0.7\<rparr>] \<and>
   length [example_row 2 ''App freezes on launch'']
     \<le> length [\<lparr>s_id = ''2'', s_score = 0.9::real\<rparr>, \<lparr>s_id = ''7'', s_score = 0.7\<rparr>]"
proof -
  have db: "DB (example_env example_rows matches_missing_row) = Inr example_rows"
    by (simp add: example_env_def)
  have d: "distinct (map fb_id example_rows)"
    by (simp add: example_rows_def example_row_def)
  have r: "handleSimilarFeedback (example_env example_rows matches_missing_row) (Some ''1'') =
       \<lparr>sr_status = 200,
        sr_body = \<lparr>sb_original = Some (example_row 1 ''The app keeps crashing''),
          sb_similar = Some [example_row 2 ''App freezes on launch''],
          sb_scores = Some [\<lparr>s_id = ''2'', s_score = 0.9\<rparr>, \<lparr>s_id = ''7'', s_score = 0.7\<rparr>],
          sb_message = None, sb_error = None, sb_details = None\<rparr>\<rparr>"
    by (simp add: example_simps matches_missing_row_def)
  from similar_bounded [OF db d, of "Some ''1''"] d show ?thesis
    by (simp add: r)
qed

text \<open>
  C4 (no match survives), as stated: the body carries \<^verbatim>\<open>scores: []\<close>. Here no match
  survives, the response is a 200, and its body has no \<^verbatim>\<open>scores\<close> field.
\<close>

theorem no_scores_field_counterexample:
  "surviving ''1'' matches_none_similar = [] \<and>
   sr_status (handleSimilarFeedback (example_env example_rows matches_none_similar) (Some ''1'')) = 200 \<and>
   sb_scores (sr_body (handleSimilarFeedback (example_env example_rows matches_none_similar) (Some ''1'')))
     \<noteq> Some []"
  by (simp add: example_simps matches_none_similar_def)

text \<open>
  C4 (no match survives), amended. When the original is found, its text embedded, the index
  queried and no match survives the filter, the response is a 200 whose body is
  \<^verbatim>\<open>{original, similar: [], message}\<close> with the fixed message; it has no \<^verbatim>\<open>scores\<close> field.
\<close>

theorem no_similar_response:
  assumes "feedbackId \<noteq> []"
    and "select_by_id e feedbackId = Inr (original # rest)"
    and "generateEmbedding e (fb_message original) = Inr embedding"
    and "VECTORIZE_query e embedding 6 = Inr matches"
    and "surviving feedbackId matches = []"
  shows "handleSimilarFeedback e (Some feedbackId) =
           \<lparr>sr_status = 200,
            sr_body = \<lparr>sb_original = Some original, sb_similar = Some [], sb_scores = None,
              sb_message = Some ''No similar feedback found (minimum 60% similarity required)'',
              sb_error = None, sb_details = None\<rparr>\<rparr>"
  using assms
  by (simp add: handleSimilarFeedback_def empty_similar_body_def Let_def)

theorem no_similar_response_witness:
  "handleSimilarFeedback (example_env example_rows matches_none_similar) (Some ''1'') =
     \<lparr>sr_status = 200,
      sr_body = \<lparr>sb_original = Some (example_row 1 ''The app keeps crashing''),
        sb_similar = Some [], sb_scores = None,
        sb_message = Some ''No similar feedback found (minimum 60% similarity required)'',
        sb_error = None, sb_details = None\<rparr>\<rparr>"
proof (rule no_similar_response)
  show "''1'' \<noteq> []" by simp
  show "select_by_id (example_env example_rows matches_none_similar) ''1''
          = Inr (example_row 1 ''The app keeps crashing''
                 # [])"
    by (simp add: example_simps)
  show "generateEmbedding (example_env example_rows matches_none_similar)
          (fb_message (example_row 1 ''The app keeps crashing'')) = Inr (Some [1, 0])"
    by (simp add: example_simps)
  show "VECTORIZE_query (example_env example_rows matches_none_similar) (Some [1, 0]) 6 = Inr matches_none_similar"
    by (simp add: example_simps)
  show "surviving ''1'' matches_none_similar = []"
    by (simp add: example_simps matches_none_similar_def)
qed

text \<open>
  C10 (order). When the response has \<^verbatim>\<open>scores\<close>, that list is a subsequence of the matches
  the index returned (as \<^verbatim>\<open>{id, score}\<close> pairs), so it is non-increasing in score when the
  matches are; \<^verbatim>\<open>similar\<close> is the rows of the table that an id of \<^verbatim>\<open>scores\<close> selects,
  in the order of the table. For some table and index the record at a
  position of \<^verbatim>\<open>similar\<close> has another id than the entry of \<^verbatim>\<open>scores\<close> at that position.
\<close>

theorem scores_keep_index_order:
  "(sb_scores (sr_body (handleSimilarFeedback e idParam)) = Some scores \<longrightarrow>
      (\<exists>original embedding matches rows.
          sb_original (sr_body (handleSimilarFeedback e idParam)) = Some original \<and>
          generateEmbedding e (fb_message original) = Inr embedding \<and>
          VECTORIZE_query e embedding 6 = Inr matches \<and>
          DB e = Inr rows \<and>
          subseq scores (map (\<lambda>m. \<lparr>s_id = m_id m, s_score = m_score m\<rparr>) matches) \<and>
          (sorted_wrt (\<ge>) (map m_score matches) \<longrightarrow> sorted_wrt (\<ge>) (map s_score scores)) \<and>
          sb_similar (sr_body (handleSimilarFeedback e idParam)) =
            Some (filter (\<lambda>r. \<exists>s \<in> set scores. id_is r (s_id s)) rows))) \<and>
   (\<exists>e' idParam' similar' scores' i.
      sb_similar (sr_body (handleSimilarFeedback e' idParam')) = Some similar' \<and>
      sb_scores (sr_body (handleSimilarFeedback e' idParam')) = Some scores' \<and>
      i < length similar' \<and> i < length scores' \<and>
      toString (fb_id (similar' ! i)) \<noteq> s_id (scores' ! i))"
proof (intro conjI impI)
  assume sc: "sb_scores (sr_body (handleSimilarFeedback e idParam)) = Some scores"
  show "\<exists>original embedding matches rows.
          sb_original (sr_body (handleSimilarFeedback e idParam)) = Some original \<and>
          generateEmbedding e (fb_message original) = Inr embedding \<and>
          VECTORIZE_query e embedding 6 = Inr matches \<and>
          DB e = Inr rows \<and>
          subseq scores (map (\<lambda>m. \<lparr>s_id = m_id m, s_score = m_score m\<rparr>) matches) \<and>
          (sorted_wrt (\<ge>) (map m_score matches) \<longrightarrow> sorted_wrt (\<ge>) (map s_score scores)) \<and>
          sb_similar (sr_body (handleSimilarFeedback e idParam)) =
            Some (filter (\<lambda>r. \<exists>s \<in> set scores. id_is r (s_id s)) rows)"
  proof (cases e idParam rule: similar_response_cases)
    case failed
    with sc show ?thesis by simp
  next
    case (none fid original rows rest embedding ms)
    with sc show ?thesis by (simp add: no_similar_body_def)
  next
    case (some fid original rows rest embedding ms)
    with sc have scores: "scores = to_scores (surviving fid ms)" by simp
    have "subseq scores (map (\<lambda>m. \<lparr>s_id = m_id m, s_score = m_score m\<rparr>) ms)"
      unfolding scores to_scores_def by (rule subseq_map) (rule surviving_subseq)
    moreover have "sorted_wrt (\<ge>) (map s_score scores)" if "sorted_wrt (\<ge>) (map m_score ms)"
      using surviving_sorted [OF that, of fid] by (simp add: scores to_scores_def comp_def)
    moreover have "filter (\<lambda>r. list_ex (id_is r) (map m_id (surviving fid ms))) rows
        = filter (\<lambda>r. \<exists>s \<in> set scores. id_is r (s_id s)) rows"
      by (rule filter_cong) (auto simp: list_ex_iff scores to_scores_def)
    ultimately show ?thesis
      using some by auto
  qed
next
  let ?e = "example_env example_rows matches_against_table_order"
  have r: "handleSimilarFeedback ?e (Some ''1'') =
       \<lparr>sr_status = 200,
        sr_body = \<lparr>sb_original = Some (example_row 1 ''The app keeps crashing''),
          sb_similar = Some [example_row 2 ''App freezes on launch'',
                            example_row 3 ''Crashes after the update''],
          sb_scores = Some [\<lparr>s_id = ''3'', s_score = 0.9\<rparr>, \<lparr>s_id = ''2'', s_score = 0.7\<rparr>],
          sb_message = None, sb_error = None, sb_details = None\<rparr>\<rparr>"
    by (simp add: example_simps matches_against_table_order_def)
  have "toString (fb_id ([example_row 2 ''App freezes on launch'',
                          example_row 3 ''Crashes after the update''] ! 0))
        \<noteq> s_id ([\<lparr>s_id = ''3'', s_score = 0.9::real\<rparr>, \<lparr>s_id = ''2'', s_score = 0.7\<rparr>] ! 0)"
    by (simp add: example_row_def toString_examples)
  with r show "\<exists>e' idParam' similar' scores' i.
      sb_similar (sr_body (handleSimilarFeedback e' idParam')) = Some similar' \<and>
      sb_scores (sr_body (handleSimilarFeedback e' idParam')) = Some scores' \<and>
      i < length similar' \<and> i < length scores' \<and>
      toString (fb_id (similar' ! i)) \<noteq> s_id (scores' ! i)"
    by (intro exI [where x = ?e] exI [where x = "Some ''1''"] exI [where x = 0]
        exI [where x = "[example_row 2 ''App freezes on launch'',
                          example_row 3 ''Crashes after the update'']"]
        exI [where x = "[\<lparr>s_id = ''3'', s_score = 0.9\<rparr>, \<lparr>s_id = ''2'', s_score = 0.7\<rparr>]"])
       simp
qed

theorem scores_keep_index_order_witness:
  "sb_scores (sr_body (handleSimilarFeedback (example_env example_rows matches_against_table_order) (Some ''1'')))
     = Some [\<lparr>s_id = ''3'', s_score = 0.9\<rparr>, \<lparr>s_id = ''2'', s_score = 0.7\<rparr>] \<and>
   subseq [\<lparr>s_id = ''3'', s_score = 0.9\<rparr>, \<lparr>s_id = ''2'', s_score = 0.7\<rparr>]
     (map (\<lambda>m. \<lparr>s_id = m_id m, s_score = m_score m\<rparr>) matches_against_table_order) \<and>
   sorted_wrt (\<ge>) (map m_score matches_against_table_order) \<and>
   sorted_wrt (\<ge>) (map s_score [\<lparr>s_id = ''3'', s_score = 0.9\<rparr>, \<lparr>s_id = ''2'', s_score = 0.7\<rparr>]) \<and>
   sb_similar (sr_body (handleSimilarFeedback (example_env example_rows matches_against_table_order) (Some ''1'')))
     = Some [example_row 2 ''App freezes on launch'', example_row 3 ''Crashes after the update'']"
proof -
  let ?e = "example_env example_rows matches_against_table_order"
  let ?scores = "[\<lparr>s_id = ''3'', s_score = 0.9::real\<rparr>, \<lparr>s_id = ''2'', s_score = 0.7\<rparr>]"
  have r: "handleSimilarFeedback ?e (Some ''1'') =
       \<lparr>sr_status = 200,
        sr_body = \<lparr>sb_original = Some (example_row 1 ''The app keeps crashing''),
          sb_similar = Some [example_row 2 ''App freezes on launch'',
                            example_row 3 ''Crashes after the update''],
          sb_scores = Some ?scores,
          sb_message = None, sb_error = None, sb_details = None\<rparr>\<rparr>"
    by (simp add: example_simps matches_against_table_order_def)
  have sc: "sb_scores (sr_body (handleSimilarFeedback ?e (Some ''1''))) = Some ?scores"
    by (simp add: r)
  have q: "VECTORIZE_query ?e v 6 = Inr matches_against_table_order" for v
    by (simp add: example_env_def)
  have srt: "sorted_wrt (\<ge>) (map m_score matches_against_table_order)"
    by (simp add: matches_against_table_order_def example_match_def)
  from scores_keep_index_order [of ?e "Some ''1''" ?scores, THEN conjunct1, rule_format, OF sc]
  obtain embedding matches where "VECTORIZE_query ?e embedding 6 = Inr matches"
    and "subseq ?scores (map (\<lambda>m. \<lparr>s_id = m_id m, s_score = m_score m\<rparr>) matches)"
    and "sorted_wrt (\<ge>) (map m_score matches) \<longrightarrow> sorted_wrt (\<ge>) (map s_score ?scores)"
    by blast
  with q srt show ?thesis
    by (auto simp: r)
qed

subsection \<open>The backfill handler\<close>

lemma toString_more_examples:
  "toString 4 = ''4''" "toString 5 = ''5''" "toString 6 = ''6''"
  by code_simp+

lemma process_feedback_counts:
  "(processed (process_feedback e st feedback) = processed st + 1 \<and>
    errors (process_feedback e st feedback) = errors st) \<or>
   (processed (process_feedback e st feedback) = processed st \<and>
    errors (process_feedback e st feedback) = errors st + 1)"
  by (simp add: process_feedback_def Let_def split: sum.splits)

lemma foldl_process_feedback_counts:
  "processed (foldl (process_feedback e) st batch) + errors (foldl (process_feedback e) st batch)
     = processed st + errors st + length batch"
proof (induction batch arbitrary: st)
  case Nil
  show ?case by simp
next
  case (Cons feedback batch)
  from process_feedback_counts [of e st feedback]
  have "processed (process_feedback e st feedback) + errors (process_feedback e st feedback)
          = processed st + errors st + 1"
    by auto
  with Cons [of "process_feedback e st feedback"] show ?case by simp
qed

lemma backfill_loop_foldl:
  "backfill_loop e allFeedback i st = foldl (process_feedback e) st (drop i allFeedback)"
proof (induction e allFeedback i st rule: backfill_loop.induct)
  case (1 e allFeedback i st)
  show ?case
  proof (cases "i < length allFeedback")
    case True
    have "foldl (process_feedback e) st (drop i allFeedback)
        = foldl (process_feedback e) st (take 5 (drop i allFeedback) @ drop 5 (drop i allFeedback))"
      by (simp only: append_take_drop_id)
    also have "\<dots> = foldl (process_feedback e)
        (foldl (process_feedback e) st (take 5 (drop i allFeedback))) (drop (i + 5) allFeedback)"
      by (simp add: add.commute)
    finally show ?thesis
      using True 1 by (simp add: backfill_loop.simps [of e allFeedback i st])
  next
    case False
    then show ?thesis by (simp add: backfill_loop.simps [of e allFeedback i st])
  qed
qed

text \<open>
  C5 (backfill accounting). Over a non-empty table the handler answers 200 with
  \<^verbatim>\<open>total\<close> the number of rows read and \<^verbatim>\<open>processed + errors = total\<close>. The two counters
  are those of one pass of the per-item callback over every row in id order, so a failing
  item does not stop the later items or batches; the callback always returns, adding one
  to exactly one of the counters.
\<close>

theorem backfill_accounting:
  assumes "DB e = Inr rows" and "rows \<noteq> []"
  shows "br_status (fst (handleBackfillEmbeddings e)) = 200 \<and>
         bb_success (br_body (fst (handleBackfillEmbeddings e))) \<and>
         bb_total (br_body (fst (handleBackfillEmbeddings e))) = Some (length rows) \<and>
         (\<exists>p er. bb_processed (br_body (fst (handleBackfillEmbeddings e))) = Some p \<and>
                  bb_errors (br_body (fst (handleBackfillEmbeddings e))) = Some er \<and>
                  p + er = length rows \<and>
                  p = processed (foldl (process_feedback e)
                        \<lparr>processed = 0, errors = 0, inserted = []\<rparr> (sort_key fb_id rows)) \<and>
                  er = errors (foldl (process_feedback e)
                        \<lparr>processed = 0, errors = 0, inserted = []\<rparr> (sort_key fb_id rows))) \<and>
         ((processed (process_feedback e st feedback) = processed st + 1 \<and>
           errors (process_feedback e st feedback) = errors st) \<or>
          (processed (process_feedback e st feedback) = processed st \<and>
           errors (process_feedback e st feedback) = errors st + 1))"
proof -
  let ?all = "sort_key fb_id rows"
  let ?init = "\<lparr>processed = 0, errors = 0, inserted = []\<rparr>"
  let ?final = "foldl (process_feedback e) ?init ?all"
  have sel: "select_all_ordered e = Inr ?all"
    using assms(1) by (simp add: select_all_ordered_def d1_all_def)
  have loop: "backfill_loop e ?all 0 ?init = ?final"
    by (simp add: backfill_loop_foldl)
  have sum: "processed ?final + errors ?final = length rows"
    using foldl_process_feedback_counts [of e ?init ?all] by simp
  show ?thesis
    using assms(2) sum process_feedback_counts [of e st feedback]
    by (simp add: handleBackfillEmbeddings_def sel loop Let_def)
qed

theorem backfill_accounting_witness:
  "DB (example_env backfill_rows []) = Inr backfill_rows \<and> backfill_rows \<noteq> [] \<and>
   bb_processed (br_body (fst (handleBackfillEmbeddings (example_env backfill_rows [])))) = Some 5 \<and>
   bb_errors (br_body (fst (handleBackfillEmbeddings (example_env backfill_rows [])))) = Some 1 \<and>
   bb_total (br_body (fst (handleBackfillEmbeddings (example_env backfill_rows [])))) = Some 6"
proof -
  let ?e = "example_env backfill_rows []"
  have db: "DB ?e = Inr backfill_rows" by (simp add: example_env_def)
  have ne: "backfill_rows \<noteq> []" by (simp add: backfill_rows_def)
  have len: "length backfill_rows = 6" by (simp add: backfill_rows_def)
  have srt: "sort_key fb_id backfill_rows =
      [example_row 1 ''The app keeps crashing'', example_row 2 ''App freezes on launch'',
       example_row 3 ''Crashes after the update'', example_row 4 ''Please add dark mode'',
       example_row 5 ''Checkout fails with error 500'', example_row 6 ''Love the new dashboard'']"
    by (simp add: backfill_rows_def example_row_def)
  have run: "errors (foldl (process_feedback ?e) \<lparr>processed = 0, errors = 0, inserted = []\<rparr>
               (sort_key fb_id backfill_rows)) = 1"
    unfolding srt
    by (simp add: process_feedback_def generateEmbedding_def example_env_def example_row_def
        toString_examples toString_more_examples Let_def)
  from backfill_accounting [OF db ne] run len db ne show ?thesis
    by auto
qed

text \<open>
  C6 (empty store), as stated: the body carries \<^verbatim>\<open>processed\<close>, \<^verbatim>\<open>errors\<close> and
  \<^verbatim>\<open>total\<close>, all zero. On the empty table the response is a 200 with \<^verbatim>\<open>processed: 0\<close>, and
  neither \<^verbatim>\<open>errors\<close> nor \<^verbatim>\<open>total\<close> is a zero.
\<close>

theorem empty_store_body_counterexample:
  "br_status (fst (handleBackfillEmbeddings (example_env [] []))) = 200 \<and>
   bb_processed (br_body (fst (handleBackfillEmbeddings (example_env [] [])))) = Some 0 \<and>
   bb_errors (br_body (fst (handleBackfillEmbeddings (example_env [] [])))) \<noteq> Some 0 \<and>
   bb_total (br_body (fst (handleBackfillEmbeddings (example_env [] [])))) \<noteq> Some 0"
  by (simp add: handleBackfillEmbeddings_def select_all_ordered_def d1_all_def example_env_def)

text \<open>
  C6 (empty store), amended. On the empty table the handler answers 200 with the body
  \<^verbatim>\<open>{success: true, message: "No feedback to backfill", processed: 0}\<close>, which has no
  \<^verbatim>\<open>errors\<close> and no \<^verbatim>\<open>total\<close> field, and inserts nothing.
\<close>

theorem empty_store_response:
  assumes "DB e = Inr []"
  shows "handleBackfillEmbeddings e =
           (\<lparr>br_status = 200,
             br_body = \<lparr>bb_success = True, bb_message = Some ''No feedback to backfill'',
                        bb_processed = Some 0, bb_errors = None, bb_total = None,
                        bb_error = None\<rparr>\<rparr>, [])"
  using assms
  by (simp add: handleBackfillEmbeddings_def select_all_ordered_def d1_all_def)

theorem empty_store_response_witness:
  "handleBackfillEmbeddings (example_env [] []) =
           (\<lparr>br_status = 200,
             br_body = \<lparr>bb_success = True, bb_message = Some ''No feedback to backfill'',
                        bb_processed = Some 0, bb_errors = None, bb_total = None,
                        bb_error = None\<rparr>\<rparr>, [])"
  by (rule empty_store_response) (simp add: example_env_def)

subsection \<open>The notification workflow\<close>

lemma cleaned_examples:
  "trim (strip_fences (response_text (Some reply_urgent))) = reply_urgent"
  "trim (strip_fences (response_text (Some reply_fenced))) = reply_high"
  "trim (strip_fences (response_text (Some ''It is HIGH''))) = ''It is HIGH''"
  by code_simp+

lemma reply_distinct: "''It is HIGH'' \<noteq> reply_urgent" "''It is HIGH'' \<noteq> reply_high"
  "reply_high \<noteq> reply_urgent"
  by (simp_all add: reply_urgent_def reply_high_def dquote_def)

lemma analyzeUrgency_throws:
  assumes "AI_run w system_content (urgency_prompt message sentiment) = Inl msg"
  shows "analyzeUrgency w message sentiment = urgency_fallback sentiment"
  using assms by (simp add: analyzeUrgency_def)

lemma analyzeUrgency_unparsable:
  assumes "AI_run w system_content (urgency_prompt message sentiment) = Inr response"
    and "JSON_parse w (trim (strip_fences (response_text response))) = None"
  shows "analyzeUrgency w message sentiment = urgency_fallback sentiment"
  using assms by (simp add: analyzeUrgency_def Let_def)

lemma analyzeUrgency_null:
  assumes "AI_run w system_content (urgency_prompt message sentiment) = Inr response"
    and "JSON_parse w (trim (strip_fences (response_text response))) = Some JNull"
  shows "analyzeUrgency w message sentiment = urgency_fallback sentiment"
  using assms by (simp add: analyzeUrgency_def Let_def get_property_def)

lemma analyzeUrgency_parsed:
  assumes "AI_run w system_content (urgency_prompt message sentiment) = Inr response"
    and "JSON_parse w (trim (strip_fences (response_text response))) = Some analysis"
    and "analysis \<noteq> JNull"
  shows "\<exists>level confidence reason category.
           get_property analysis ''level'' = Inr level \<and>
           get_property analysis ''confidence'' = Inr confidence \<and>
           get_property analysis ''reason'' = Inr reason \<and>
           get_property analysis ''category'' = Inr category \<and>
           analyzeUrgency w message sentiment =
             \<lparr>u_level = js_or level (JStr ''NORMAL''),
              u_confidence = js_or confidence (JNum 0.5),
              u_reason = js_or reason (JStr ''No specific reason provided''),
              u_category = js_or category (JStr ''General'')\<rparr>"
  using assms
  by (cases analysis) (simp_all add: analyzeUrgency_def Let_def get_property_def)

text \<open>
  C7 (urgency fallback). When the call to the model throws, or \<^verbatim>\<open>JSON.parse\<close> rejects the
  cleaned response text, or it parses to \<^verbatim>\<open>null\<close> (reading a property of it throws), the
  classifier returns level HIGH for the sentiment \<^verbatim>\<open>negative\<close> and NORMAL for any other,
  with confidence 0.5 and the generic reason and category. The classifier returns an
  assessment on every input: no error leaves it.
\<close>

theorem urgency_fallback_on_failure:
  assumes "(\<exists>msg. AI_run w system_content (urgency_prompt message sentiment) = Inl msg) \<or>
           (\<exists>response. AI_run w system_content (urgency_prompt message sentiment) = Inr response \<and>
              (JSON_parse w (trim (strip_fences (response_text response))) = None \<or>
               JSON_parse w (trim (strip_fences (response_text response))) = Some JNull))"
  shows "analyzeUrgency w message sentiment =
           \<lparr>u_level = (if sentiment = ''negative'' then JStr ''HIGH'' else JStr ''NORMAL''),
            u_confidence = JNum 0.5,
            u_reason = JStr ''Fallback classification based on sentiment'',
            u_category = JStr ''General''\<rparr>"
proof -
  from assms have "analyzeUrgency w message sentiment = urgency_fallback sentiment"
    by (auto intro: analyzeUrgency_throws analyzeUrgency_unparsable analyzeUrgency_null)
  then show ?thesis by (simp add: urgency_fallback_def)
qed

theorem urgency_fallback_on_failure_witness:
  "analyzeUrgency (example_workflow_env (Inl ''AI unavailable'')) ''The app keeps crashing'' ''negative''
     = \<lparr>u_level = JStr ''HIGH'', u_confidence = JNum 0.5,
        u_reason = JStr ''Fallback classification based on sentiment'',
        u_category = JStr ''General''\<rparr> \<and>
   JSON_parse (example_workflow_env (Inr (Some ''It is HIGH'')))
     (trim (strip_fences (response_text (Some ''It is HIGH'')))) = None \<and>
   analyzeUrgency (example_workflow_env (Inr (Some ''It is HIGH''))) ''Nice work'' ''positive''
     = \<lparr>u_level = JStr ''NORMAL'', u_confidence = JNum 0.5,
        u_reason = JStr ''Fallback classification based on sentiment'',
        u_category = JStr ''General''\<rparr>"
proof -
  let ?down = "example_workflow_env (Inl ''AI unavailable'')"
  let ?chatty = "example_workflow_env (Inr (Some ''It is HIGH''))"
  have a: "\<exists>msg. AI_run ?down system_content
             (urgency_prompt ''The app keeps crashing'' ''negative'') = Inl msg"
    by (simp add: example_workflow_env_def)
  have p: "JSON_parse ?chatty (trim (strip_fences (response_text (Some ''It is HIGH'')))) = None"
    by (simp add: example_workflow_env_def example_parse_def cleaned_examples reply_distinct)
  have b: "\<exists>response. AI_run ?chatty system_content (urgency_prompt ''Nice work'' ''positive'')
               = Inr response \<and>
             (JSON_parse ?chatty (trim (strip_fences (response_text response))) = None \<or>
              JSON_parse ?chatty (trim (strip_fences (response_text response))) = Some JNull)"
    using p by (simp add: example_workflow_env_def)
  from urgency_fallback_on_failure [of ?down "''The app keeps crashing''" "''negative''", OF disjI1, OF a]
    urgency_fallback_on_failure [of ?chatty "''Nice work''" "''positive''", OF disjI2, OF b] p
  show ?thesis by simp
qed

text \<open>
  C8 (closed level set), as stated: every assessment has a level among CRITICAL, HIGH,
  NORMAL and a confidence in [0,1]. The model answers
  \<^verbatim>\<open>{"level":"URGENT","confidence":7}\<close>, which \<^verbatim>\<open>JSON.parse\<close> accepts: the assessment has
  level URGENT and confidence 7.
\<close>

theorem unvalidated_assessment_counterexample:
  "u_level (analyzeUrgency (example_workflow_env (Inr (Some reply_urgent)))
      ''The app keeps crashing'' ''negative'') = JStr ''URGENT'' \<and>
   u_confidence (analyzeUrgency (example_workflow_env (Inr (Some reply_urgent)))
      ''The app keeps crashing'' ''negative'') = JNum 7 \<and>
   \<not> valid_assessment (analyzeUrgency (example_workflow_env (Inr (Some reply_urgent)))
      ''The app keeps crashing'' ''negative'')"
  by (simp add: analyzeUrgency_def example_workflow_env_def example_parse_def cleaned_examples
      get_property_def js_or_def valid_assessment_def valid_level_def valid_confidence_def Let_def)

lemma js_or_cases: "js_or v d = d \<or> (\<exists>x. v = Some x \<and> truthy x \<and> js_or v d = x)"
  by (simp add: js_or_def split: option.splits)

lemma fallback_valid: "valid_assessment (urgency_fallback sentiment)"
  by (simp add: valid_assessment_def valid_level_def valid_confidence_def urgency_fallback_def)

text \<open>
  C8 (closed level set), amended. The assessment has a level among CRITICAL, HIGH, NORMAL
  and a confidence in [0,1] provided that, whenever the response parses, a truthy
  \<^verbatim>\<open>level\<close> of the parsed value is one of the three strings and a truthy \<^verbatim>\<open>confidence\<close> is a
  number in [0,1]. A truthy \<^verbatim>\<open>level\<close> or \<^verbatim>\<open>confidence\<close> of a parsed object is returned as it
  is.
\<close>

theorem assessment_valid_when_reply_valid:
  "((\<forall>response analysis.
        AI_run w system_content (urgency_prompt message sentiment) = Inr response \<and>
        JSON_parse w (trim (strip_fences (response_text response))) = Some analysis \<longrightarrow>
        (\<forall>v. get_property analysis ''level'' = Inr (Some v) \<and> truthy v \<longrightarrow> valid_level v) \<and>
        (\<forall>v. get_property analysis ''confidence'' = Inr (Some v) \<and> truthy v
              \<longrightarrow> valid_confidence v))
     \<longrightarrow> valid_assessment (analyzeUrgency w message sentiment)) \<and>
   (AI_run w system_content (urgency_prompt message sentiment) = Inr response \<and>
    JSON_parse w (trim (strip_fences (response_text response))) = Some (JObj props)
     \<longrightarrow> (\<forall>v. map_of props ''level'' = Some v \<and> truthy v
               \<longrightarrow> u_level (analyzeUrgency w message sentiment) = v) \<and>
         (\<forall>v. map_of props ''confidence'' = Some v \<and> truthy v
               \<longrightarrow> u_confidence (analyzeUrgency w message sentiment) = v))"
proof (intro conjI impI)
  assume ok: "\<forall>response analysis.
        AI_run w system_content (urgency_prompt message sentiment) = Inr response \<and>
        JSON_parse w (trim (strip_fences (response_text response))) = Some analysis \<longrightarrow>
        (\<forall>v. get_property analysis ''level'' = Inr (Some v) \<and> truthy v \<longrightarrow> valid_level v) \<and>
        (\<forall>v. get_property analysis ''confidence'' = Inr (Some v) \<and> truthy v
              \<longrightarrow> valid_confidence v)"
  show "valid_assessment (analyzeUrgency w message sentiment)"
  proof (cases "AI_run w system_content (urgency_prompt message sentiment)")
    case (Inl msg)
    then show ?thesis by (simp add: analyzeUrgency_throws fallback_valid)
  next
    case (Inr response)
    show ?thesis
    proof (cases "JSON_parse w (trim (strip_fences (response_text response)))")
      case None
      with Inr show ?thesis by (simp add: analyzeUrgency_unparsable fallback_valid)
    next
      case (Some analysis)
      show ?thesis
      proof (cases "analysis = JNull")
        case True
        with Inr Some show ?thesis by (simp add: analyzeUrgency_null fallback_valid)
      next
        case False
        from analyzeUrgency_parsed [OF Inr Some False]
        obtain level confidence reason category where
          g: "get_property analysis ''level'' = Inr level"
             "get_property analysis ''confidence'' = Inr confidence"
          and r: "analyzeUrgency w message sentiment =
             \<lparr>u_level = js_or level (JStr ''NORMAL''),
              u_confidence = js_or confidence (JNum 0.5),
              u_reason = js_or reason (JStr ''No specific reason provided''),
              u_category = js_or category (JStr ''General'')\<rparr>"
          by blast
        from ok Inr Some g
        have lv: "\<forall>v. level = Some v \<and> truthy v \<longrightarrow> valid_level v"
          and cf: "\<forall>v. confidence = Some v \<and> truthy v \<longrightarrow> valid_confidence v"
          by auto
        have "valid_level (js_or level (JStr ''NORMAL''))"
          using js_or_cases [of level "JStr ''NORMAL''"] lv
          by (auto simp: valid_level_def)
        moreover have "valid_confidence (js_or confidence (JNum 0.5))"
          using js_or_cases [of confidence "JNum 0.5"] cf
          by (auto simp: valid_confidence_def)
        ultimately show ?thesis
          by (simp add: r valid_assessment_def)
      qed
    qed
  qed
next
  assume "AI_run w system_content (urgency_prompt message sentiment) = Inr response \<and>
    JSON_parse w (trim (strip_fences (response_text response))) = Some (JObj props)"
  then show "\<forall>v. map_of props ''level'' = Some v \<and> truthy v
               \<longrightarrow> u_level (analyzeUrgency w message sentiment) = v"
    and "\<forall>v. map_of props ''confidence'' = Some v \<and> truthy v
               \<longrightarrow> u_confidence (analyzeUrgency w message sentiment) = v"
    by (simp_all add: analyzeUrgency_def Let_def get_property_def js_or_def)
qed

theorem assessment_valid_when_reply_valid_witness:
  "valid_assessment (analyzeUrgency
      (example_workflow_env (Inr (Some reply_fenced)))
      ''The app keeps crashing'' ''negative'') \<and>
   u_level (analyzeUrgency
      (example_workflow_env (Inr (Some reply_fenced)))
      ''The app keeps crashing'' ''negative'') = JStr ''HIGH'' \<and>
   u_confidence (analyzeUrgency
      (example_workflow_env (Inr (Some reply_fenced)))
      ''The app keeps crashing'' ''negative'') = JNum 0.9"
proof -
  let ?reply = reply_fenced
  let ?w = "example_workflow_env (Inr (Some ?reply))"
  let ?props = "[(''level'', JStr ''HIGH''), (''confidence'', JNum 0.9)]"
  have ai: "AI_run ?w system_content (urgency_prompt ''The app keeps crashing'' ''negative'')
      = Inr (Some ?reply)"
    by (simp add: example_workflow_env_def)
  have parse: "JSON_parse ?w (trim (strip_fences (response_text (Some ?reply)))) = Some (JObj ?props)"
    by (simp add: example_workflow_env_def example_parse_def cleaned_examples reply_distinct)
  have ok: "\<forall>response analysis.
        AI_run ?w system_content (urgency_prompt ''The app keeps crashing'' ''negative'') = Inr response \<and>
        JSON_parse ?w (trim (strip_fences (response_text response))) = Some analysis \<longrightarrow>
        (\<forall>v. get_property analysis ''level'' = Inr (Some v) \<and> truthy v \<longrightarrow> valid_level v) \<and>
        (\<forall>v. get_property analysis ''confidence'' = Inr (Some v) \<and> truthy v
              \<longrightarrow> valid_confidence v)"
    using parse
    by (auto simp: ai get_property_def valid_level_def valid_confidence_def)
  from assessment_valid_when_reply_valid
    [of ?w "''The app keeps crashing''" "''negative''" "Some ?reply" ?props] ok ai parse
  show ?thesis by simp
qed

text \<open>
  C9 (workflow conditionality). A run enters the step \<^verbatim>\<open>send-slack-notification\<close> if and
  only if the level the step \<^verbatim>\<open>analyze-urgency\<close> returned is CRITICAL or HIGH. With any
  other level the run enters only \<^verbatim>\<open>analyze-urgency\<close> and returns
  \<^verbatim>\<open>notified = false\<close>; whenever a run returns, \<^verbatim>\<open>notified\<close> says whether the step was entered.
\<close>

theorem notification_iff_urgent:
  "(''send-slack-notification'' \<in> set (steps (run w event))) =
     (u_level (analyzeUrgency w (p_message event) (p_sentiment event)) = JStr ''CRITICAL'' \<or>
      u_level (analyzeUrgency w (p_message event) (p_sentiment event)) = JStr ''HIGH'') \<and>
   (u_level (analyzeUrgency w (p_message event) (p_sentiment event)) \<noteq> JStr ''CRITICAL'' \<and>
    u_level (analyzeUrgency w (p_message event) (p_sentiment event)) \<noteq> JStr ''HIGH''
    \<longrightarrow> run w event =
          \<lparr>steps = [''analyze-urgency''],
           outcome = Inr \<lparr>r_success = True,
             r_urgency = u_level (analyzeUrgency w (p_message event) (p_sentiment event)),
             r_notified = False\<rparr>\<rparr>) \<and>
   (\<forall>result. outcome (run w event) = Inr result \<longrightarrow>
      r_urgency result = u_level (analyzeUrgency w (p_message event) (p_sentiment event)) \<and>
      r_notified result = (''send-slack-notification'' \<in> set (steps (run w event))))"
  by (auto simp: run_def step_do_def split: sum.splits prod.splits)

theorem notification_iff_urgent_witness:
  "run (example_workflow_env (Inl ''AI unavailable'')) (example_payload ''neutral'') =
     \<lparr>steps = [''analyze-urgency''],
      outcome = Inr \<lparr>r_success = True, r_urgency = JStr ''NORMAL'', r_notified = False\<rparr>\<rparr> \<and>
   ''send-slack-notification''
     \<in> set (steps (run (example_workflow_env (Inl ''AI unavailable'')) (example_payload ''negative''))) \<and>
   outcome (run (example_workflow_env (Inl ''AI unavailable'')) (example_payload ''negative'')) =
     Inr \<lparr>r_success = True, r_urgency = JStr ''HIGH'', r_notified = True\<rparr>"
proof -
  let ?w = "example_workflow_env (Inl ''AI unavailable'')"
  have normal: "analyzeUrgency ?w (p_message (example_payload ''neutral''))
      (p_sentiment (example_payload ''neutral'')) = urgency_fallback ''neutral''"
    by (simp add: analyzeUrgency_def example_workflow_env_def example_payload_def)
  have high: "analyzeUrgency ?w (p_message (example_payload ''negative''))
      (p_sentiment (example_payload ''negative'')) = urgency_fallback ''negative''"
    by (simp add: analyzeUrgency_def example_workflow_env_def example_payload_def)
  have sent: "outcome (run ?w (example_payload ''negative'')) =
     Inr \<lparr>r_success = True, r_urgency = JStr ''HIGH'', r_notified = True\<rparr>"
    by (simp add: run_def step_do_def analyzeUrgency_def urgency_fallback_def
        sendSlackNotification_def example_workflow_env_def example_payload_def)
  from notification_iff_urgent [of ?w "example_payload ''neutral''"]
    notification_iff_urgent [of ?w "example_payload ''negative''"] sent
  show ?thesis
    by (simp add: normal high urgency_fallback_def)
qed

end
